theory Spec2Isabelle
  imports Main
begin

section \<open>Go values used by main.go\<close>

text \<open>
  A Go \<^verbatim>\<open>string\<close> and a \<^verbatim>\<open>[]byte\<close> are byte sequences: both are modelled as
  \<^typ>\<open>string\<close> (a list of 8-bit characters). A Go \<^verbatim>\<open>error\<close> is modelled by its
  message; \<^verbatim>\<open>nil\<close> is \<^term>\<open>None\<close>. A \<^verbatim>\<open>time.Duration\<close> is a number of
  nanoseconds.
\<close>

type_synonym goerror = "string option"

definition Second :: nat where
  "Second = 1000000000"

text \<open>
  The functions of the Go standard library that main.go calls on strings work on bytes
  as long as every byte is below \<^verbatim>\<open>utf8.RuneSelf\<close> (0x80) and fall back to the
  Unicode tables otherwise. The ASCII paths are written out below; the Unicode fallbacks
  and the operating system's path separator are parameters of the model.
\<close>

datatype GOOS = Windows | Unix

record golib =
  goos :: GOOS
  mapUnicodeToLower :: "string \<Rightarrow> string"
  trimFuncIsSpace :: "string \<Rightarrow> string"
  trimRightFuncIsSpace :: "string \<Rightarrow> string"

definition isASCII :: "char \<Rightarrow> bool" where
  "isASCII c = ((of_char c :: nat) < 128)"

definition asciiSpace :: "char \<Rightarrow> bool" where
  "asciiSpace c = ((of_char c :: nat) \<in> {9, 10, 11, 12, 13, 32})"

definition asciiLower :: "char \<Rightarrow> char" where
  "asciiLower c =
     (let n = (of_char c :: nat) in if 65 \<le> n \<and> n \<le> 90 then char_of (n + 32) else c)"

text \<open>\<^verbatim>\<open>strings.ToLower\<close>: byte-wise on an ASCII string, \<^verbatim>\<open>Map(unicode.ToLower, s)\<close> otherwise.\<close>

definition ToLower :: "golib \<Rightarrow> string \<Rightarrow> string" where
  "ToLower lib s = (if list_all isASCII s then map asciiLower s else mapUnicodeToLower lib s)"

text \<open>
  \<^verbatim>\<open>strings.TrimSpace\<close>: skip ASCII white space from the left, then from the right;
  at the first byte that is not ASCII hand the rest over to the Unicode-aware
  \<^verbatim>\<open>TrimFunc\<close> (from the left) or \<^verbatim>\<open>TrimRightFunc\<close> (from the right).
\<close>

datatype scan = Fallback string | Stopped string

fun scanSpace :: "string \<Rightarrow> scan" where
  "scanSpace [] = Stopped []"
| "scanSpace (c # s) =
     (if \<not> isASCII c then Fallback (c # s)
      else if \<not> asciiSpace c then Stopped (c # s)
      else scanSpace s)"

definition TrimSpace :: "golib \<Rightarrow> string \<Rightarrow> string" where
  "TrimSpace lib s =
     (case scanSpace s of
        Fallback rest \<Rightarrow> trimFuncIsSpace lib rest
      | Stopped rest \<Rightarrow>
          (case scanSpace (rev rest) of
             Fallback r \<Rightarrow> trimRightFuncIsSpace lib (rev r)
           | Stopped r \<Rightarrow> rev r))"

text \<open>\<^verbatim>\<open>os.IsPathSeparator\<close> and \<^verbatim>\<open>filepath.Ext\<close> (the loop runs from the last byte down).\<close>

definition IsPathSeparator :: "GOOS \<Rightarrow> char \<Rightarrow> bool" where
  "IsPathSeparator os c =
     (case os of Windows \<Rightarrow> c = CHR 0x5C \<or> c = CHR ''/'' | Unix \<Rightarrow> c = CHR ''/'')"

fun Ext_loop :: "GOOS \<Rightarrow> string \<Rightarrow> nat \<Rightarrow> string" where
  "Ext_loop os path 0 = []"
| "Ext_loop os path (Suc i) =
     (if IsPathSeparator os (path ! i) then []
      else if path ! i = CHR ''.'' then drop i path
      else Ext_loop os path i)"

definition Ext :: "GOOS \<Rightarrow> string \<Rightarrow> string" where
  "Ext os path = Ext_loop os path (length path)"

section \<open>isValidImageType (main.go, lines 859-869)\<close>

definition validExts :: "string list" where
  "validExts = [''.png'', ''.jpg'', ''.jpeg'', ''.gif'', ''.bmp'', ''.tiff'']"

fun validExts_loop :: "string \<Rightarrow> string list \<Rightarrow> bool" where
  "validExts_loop ext [] = False"
| "validExts_loop ext (validExt # rest) = (if ext = validExt then True else validExts_loop ext rest)"

definition isValidImageType :: "golib \<Rightarrow> string \<Rightarrow> bool" where
  "isValidImageType lib filename =
     (let ext = ToLower lib (Ext (goos lib) filename) in validExts_loop ext validExts)"

section \<open>The file system, the buffer pool and the log\<close>

text \<open>
  The part of the outside world that the worker touches: the files (by name), the
  buffers idle in \<^verbatim>\<open>bufferPool\<close>, the lines written by \<^verbatim>\<open>log.Printf\<close> and the
  system calls made so far. Whether a call fails is decided by the environment:
  \<open>createErr\<close>, \<open>writeErr\<close> (how many bytes went out before the error) and
  \<open>removeErr\<close> are oracles for that.
\<close>

datatype syscall = SysCreate string | SysWrite string nat | SysClose string | SysRemove string

record world =
  files :: "string \<rightharpoonup> string"
  createErr :: "string \<Rightarrow> goerror"
  writeErr :: "string \<Rightarrow> (nat \<times> string) option"
  removeErr :: "string \<Rightarrow> goerror"
  pool :: "string list"
  logs :: "string list"
  syscalls :: "syscall list"

definition os_Create :: "world \<Rightarrow> string \<Rightarrow> goerror \<times> world" where
  "os_Create w name =
     (case createErr w name of
        Some e \<Rightarrow> (Some e, w\<lparr>syscalls := syscalls w @ [SysCreate name]\<rparr>)
      | None \<Rightarrow>
          (None, w\<lparr>files := (files w)(name \<mapsto> []), syscalls := syscalls w @ [SysCreate name]\<rparr>))"

text \<open>\<^verbatim>\<open>(*os.File).Write\<close>: the error is non-nil exactly when fewer bytes went out.\<close>

definition file_Write :: "world \<Rightarrow> string \<Rightarrow> string \<Rightarrow> (nat \<times> goerror) \<times> world" where
  "file_Write w name b =
     (let (written, err) =
            (case writeErr w name of None \<Rightarrow> (b, None) | Some (n, e) \<Rightarrow> (take n b, Some e));
          old = (case files w name of None \<Rightarrow> [] | Some c \<Rightarrow> c)
      in ((length written, err),
          w\<lparr>files := (files w)(name \<mapsto> old @ written),
            syscalls := syscalls w @ [SysWrite name (length written)]\<rparr>))"

definition file_Close :: "world \<Rightarrow> string \<Rightarrow> world" where
  "file_Close w name = w\<lparr>syscalls := syscalls w @ [SysClose name]\<rparr>"

definition os_Remove :: "world \<Rightarrow> string \<Rightarrow> goerror \<times> world" where
  "os_Remove w name =
     (let w' = w\<lparr>syscalls := syscalls w @ [SysRemove name]\<rparr> in
      case removeErr w name of
        Some e \<Rightarrow> (Some e, w')
      | None \<Rightarrow>
          (if files w name = None then
             (Some (''remove '' @ name @ '': no such file or directory''), w')
           else (None, w'\<lparr>files := (files w)(name := None)\<rparr>)))"

definition log_Printf :: "world \<Rightarrow> string \<Rightarrow> world" where
  "log_Printf w msg = w\<lparr>logs := logs w @ [msg]\<rparr>"

text \<open>
  \<^verbatim>\<open>bufferPool\<close>: \<^verbatim>\<open>Get\<close> hands out an idle buffer, or a new empty one
  (\<^verbatim>\<open>make([]byte, 0, 1024*1024)\<close>) when none is idle; \<^verbatim>\<open>Put\<close> makes a buffer idle.
\<close>

definition pool_Get :: "world \<Rightarrow> string \<times> world" where
  "pool_Get w = (case pool w of [] \<Rightarrow> ([], w) | b # bs \<Rightarrow> (b, w\<lparr>pool := bs\<rparr>))"

definition pool_Put :: "world \<Rightarrow> string \<Rightarrow> world" where
  "pool_Put w b = w\<lparr>pool := b # pool w\<rparr>"

text \<open>
  \<^verbatim>\<open>bytes.Buffer\<close>: the unread bytes. \<^verbatim>\<open>WriteTo\<close> makes one \<^verbatim>\<open>Write\<close> call on the
  destination when the buffer is not empty and reports a short write that came without
  an error.
\<close>

definition Buffer_Write :: "string \<Rightarrow> string \<Rightarrow> string" where
  "Buffer_Write buf p = buf @ p"

definition Buffer_WriteTo :: "string \<Rightarrow> world \<Rightarrow> string \<Rightarrow> (nat \<times> goerror) \<times> world" where
  "Buffer_WriteTo buf w name =
     (if length buf > 0 then
        (case file_Write w name buf of
           ((m, e), w') \<Rightarrow>
             (case e of
                Some x \<Rightarrow> ((m, Some x), w')
              | None \<Rightarrow>
                  (if m \<noteq> length buf then ((m, Some ''short write''), w')
                   else ((m, None), w'))))
      else ((0, None), w))"

section \<open>writeImageFileOptimized (main.go, lines 274-295)\<close>

text \<open>The deferred calls run last, in reverse order: \<^verbatim>\<open>bufferPool.Put\<close>, then \<^verbatim>\<open>file.Close\<close>.\<close>

definition writeImageFileOptimized :: "world \<Rightarrow> string \<Rightarrow> string \<Rightarrow> goerror \<times> world" where
  "writeImageFileOptimized w filename data =
     (case os_Create w filename of
        (Some err, w1) \<Rightarrow> (Some err, w1)
      | (None, w1) \<Rightarrow>
          (let (err, w2) =
                 (if length data > 32 * 1024 then
                    (let (buf, w') = pool_Get w1;
                         bufferedWriter = Buffer_Write [] data;
                         ((n, e), w'') = Buffer_WriteTo bufferedWriter w' filename
                     in (e, pool_Put w'' (take 0 buf)))
                  else
                    (let ((n, e), w') = file_Write w1 filename data in (e, w')))
           in (err, file_Close w2 filename)))"

text \<open>
  The plain write that the small-payload branch performs, taken on its own: create,
  one \<^verbatim>\<open>Write\<close> of the data, close. It is what the large-payload branch is compared
  with.
\<close>

definition writeImageFilePlain :: "world \<Rightarrow> string \<Rightarrow> string \<Rightarrow> goerror \<times> world" where
  "writeImageFilePlain w filename data =
     (case os_Create w filename of
        (Some err, w1) \<Rightarrow> (Some err, w1)
      | (None, w1) \<Rightarrow>
          (let ((n, e), w') = file_Write w1 filename data in (e, file_Close w' filename)))"

section \<open>processOCRRequest (main.go, lines 206-271)\<close>

record OCRResponse =
  Text :: string
  Err :: goerror

text \<open>\<^verbatim>\<open>fmt.Sprintf("temp_%d_%s", time.Now().UnixNano(), filename)\<close>.\<close>

definition digit :: "nat \<Rightarrow> char" where
  "digit d = ''0123456789'' ! d"

function showNat :: "nat \<Rightarrow> string" where
  "showNat n = (if n < 10 then [digit n] else showNat (n div 10) @ [digit (n mod 10)])"
  by pat_completeness auto
termination
  by (relation "measure id") auto

declare showNat.simps [simp del]

definition fmt_d :: "int \<Rightarrow> string" where
  "fmt_d i = (if i < 0 then CHR ''-'' # showNat (nat (- i)) else showNat (nat i))"

definition tempFileName :: "int \<Rightarrow> string \<Rightarrow> string" where
  "tempFileName now filename = ''temp_'' @ fmt_d now @ ''_'' @ filename"

text \<open>
  A \<^verbatim>\<open>select\<close> between a channel operation and a timer. The channel operation becomes
  possible at time \<open>t\<close> (with value \<open>v\<close>), or never; the timer fires at \<open>timeout\<close>.
  Whichever is first is taken; when both are ready at the same moment Go chooses either,
  which \<open>tie\<close> decides here.
\<close>

datatype 'a selected = Received nat 'a | Expired

definition select_or_timeout :: "nat \<Rightarrow> (nat \<times> 'a) option \<Rightarrow> bool \<Rightarrow> 'a selected" where
  "select_or_timeout timeout arrival tie =
     (case arrival of
        None \<Rightarrow> Expired
      | Some (t, v) \<Rightarrow> (if t < timeout \<or> (t = timeout \<and> tie) then Received t v else Expired))"

text \<open>
  The engine call \<^verbatim>\<open>ocrClient.TextFromImageFile(tempFile)\<close> is external: the
  environment says whether it ever returns, and if so after how long (nanoseconds since
  the deadline context was created) and with which text and error.
\<close>

datatype engine_call = Never | Returns nat string goerror

text \<open>The goroutine of lines 239-259, from the return of the engine call on.\<close>

definition engine_goroutine :: "golib \<Rightarrow> string \<Rightarrow> goerror \<Rightarrow> OCRResponse" where
  "engine_goroutine lib text err =
     (case err of
        Some e \<Rightarrow> \<lparr>Text = [], Err = Some (''Tesseract OCR processing failed: '' @ e)\<rparr>
      | None \<Rightarrow>
          (let text' = TrimSpace lib text;
               text'' = (if text' = [] then ''No text detected in the image.'' else text')
           in \<lparr>Text = text'', Err = None\<rparr>))"

text \<open>The deferred closure of lines 226-230.\<close>

definition cleanup :: "world \<Rightarrow> string \<Rightarrow> world" where
  "cleanup w tempFile =
     (case os_Remove w tempFile of
        (Some err, w') \<Rightarrow>
          log_Printf w' (''Warning: failed to remove temporary file '' @ tempFile @ '': '' @ err)
      | (None, w') \<Rightarrow> w')"

text \<open>
  The result of one call: the response, the time of the return (nanoseconds after the
  deadline context was created; 0 for the early returns), what is left in \<^verbatim>\<open>resultCh\<close>
  and is never received, and the world.
\<close>

record proc_result =
  response :: OCRResponse
  returned_at :: nat
  resultCh_left :: "OCRResponse list"
  world_after :: world

definition engineCallTimeout :: nat where
  "engineCallTimeout = 30 * Second"

definition processOCRRequest ::
  "golib \<Rightarrow> bool \<Rightarrow> int \<Rightarrow> engine_call \<Rightarrow> bool \<Rightarrow> world \<Rightarrow> string \<Rightarrow> string \<Rightarrow> proc_result" where
  "processOCRRequest lib clientReady now eng tie w imageBytes filename =
     (if \<not> clientReady then
        \<lparr>response = \<lparr>Text = [], Err = Some ''Tesseract OCR not initialized''\<rparr>,
         returned_at = 0, resultCh_left = [], world_after = w\<rparr>
      else
        (let tempFile = tempFileName now filename in
         case writeImageFileOptimized w tempFile imageBytes of
           (Some err, w1) \<Rightarrow>
             \<lparr>response = \<lparr>Text = [], Err = Some (''failed to create temporary file: '' @ err)\<rparr>,
              returned_at = 0, resultCh_left = [], world_after = w1\<rparr>
         | (None, w1) \<Rightarrow>
             (let posted =
                    (case eng of
                       Never \<Rightarrow> None
                     | Returns d text err \<Rightarrow> Some (d, engine_goroutine lib text err));
                  (result, at, left) =
                    (case select_or_timeout engineCallTimeout posted tie of
                       Received t r \<Rightarrow> (r, t, [])
                     | Expired \<Rightarrow>
                         (\<lparr>Text = [], Err = Some ''OCR processing timeout''\<rparr>, engineCallTimeout,
                          (case posted of None \<Rightarrow> [] | Some (d, r) \<Rightarrow> [r])))
              in \<lparr>response = result, returned_at = at, resultCh_left = left,
                  world_after = cleanup w1 tempFile\<rparr>)))"

section \<open>uploadHandler (main.go, lines 761-857)\<close>

text \<open>
  What the handler sees of a request: its method, whether \<^verbatim>\<open>ParseMultipartForm\<close>
  fails, and the outcome of \<^verbatim>\<open>FormFile("image")\<close>: an error, or the header's file
  name together with what \<^verbatim>\<open>io.ReadAll\<close> will give.
\<close>

datatype readall = ReadError | ReadOK string

datatype formfile = FormFileError | FormFile string readall

record request =
  Method :: string
  ParseMultipartFormErr :: bool
  image :: formfile

text \<open>
  The two \<^verbatim>\<open>select\<close> statements depend on the other goroutines: \<open>admit_at\<close> is the
  time (after the first \<^verbatim>\<open>select\<close> is entered) at which \<^verbatim>\<open>ocrWorkerPool\<close> has
  room for the send, if ever; \<open>reply_at\<close> is the time (after admission) at which a
  worker's response lies in \<^verbatim>\<open>responseCh\<close>, if ever.
\<close>

record sched =
  admit_at :: "nat option"
  admit_tie :: bool
  reply_at :: "(nat \<times> OCRResponse) option"
  reply_tie :: bool

text \<open>
  What the handler does: the status and body it writes, the time it spent waiting in
  its \<^verbatim>\<open>select\<close> statements, and its effects on shared state in order (deferred
  calls last, in reverse order). \<open>MakeChan n\<close> is \<^verbatim>\<open>make(chan OCRResponse, n)\<close>,
  \<open>Enqueue\<close> the completed send of a request (with the channel just made) on
  \<^verbatim>\<open>ocrWorkerPool\<close>.
\<close>

datatype body = Raw string | Redirect string | Json string string string

datatype effect = PoolGet | PoolPut | FileClose | MakeChan nat | Enqueue string string

record outcome =
  status :: nat
  body :: body
  effects :: "effect list"
  waited :: nat

definition admissionTimeout :: nat where
  "admissionTimeout = 5 * Second"

definition processingTimeout :: nat where
  "processingTimeout = 35 * Second"

definition uploadHandler :: "golib \<Rightarrow> bool \<Rightarrow> bool \<Rightarrow> sched \<Rightarrow> request \<Rightarrow> outcome" where
  \<open>uploadHandler lib tesseractFound clientReady sc r =
     (if Method r \<noteq> ''POST'' then
        \<lparr>status = 303, body = Redirect ''/'', effects = [], waited = 0\<rparr>
      else if \<not> tesseractFound \<or> \<not> clientReady then
        \<lparr>status = 503,
         body = Raw ''{"error": "Tesseract OCR not configured. Please visit /setup for installation instructions."}'',
         effects = [], waited = 0\<rparr>
      else if ParseMultipartFormErr r then
        \<lparr>status = 400, body = Raw ''{"error": "File too large or invalid form data"}'',
         effects = [], waited = 0\<rparr>
      else
        (case image r of
           FormFileError \<Rightarrow>
             \<lparr>status = 400, body = Raw ''{"error": "No file uploaded or invalid file"}'',
              effects = [], waited = 0\<rparr>
         | FormFile filename content \<Rightarrow>
             (if \<not> isValidImageType lib filename then
                \<lparr>status = 400,
                 body = Raw ''{"error": "Please upload a valid image file (PNG, JPG, JPEG, GIF, BMP, TIFF)"}'',
                 effects = [FileClose], waited = 0\<rparr>
              else
                (case content of
                   ReadError \<Rightarrow>
                     \<lparr>status = 500, body = Raw ''{"error": "Failed to read uploaded file"}'',
                      effects = [PoolGet, PoolPut, FileClose], waited = 0\<rparr>
                 | ReadOK fileBytes \<Rightarrow>
                     (case select_or_timeout admissionTimeout
                             (map_option (\<lambda>t. (t, ())) (admit_at sc)) (admit_tie sc) of
                        Expired \<Rightarrow>
                          \<lparr>status = 503, body = Raw ''{"error": "OCR service busy, please try again"}'',
                           effects = [PoolGet, MakeChan 1, PoolPut, FileClose],
                           waited = admissionTimeout\<rparr>
                      | Received t u \<Rightarrow>
                          (case select_or_timeout processingTimeout (reply_at sc) (reply_tie sc) of
                             Received t' result \<Rightarrow>
                               (case Err result of
                                  Some e \<Rightarrow>
                                    \<lparr>status = 500,
                                     body = Raw (''{"error": "OCR failed: '' @ e @ ''"}''),
                                     effects = [PoolGet, MakeChan 1, Enqueue fileBytes filename,
                                                PoolPut, FileClose],
                                     waited = t + t'\<rparr>
                                | None \<Rightarrow>
                                    \<lparr>status = 200,
                                     body = Json (Text result) filename ''Tesseract OCR'',
                                     effects = [PoolGet, MakeChan 1, Enqueue fileBytes filename,
                                                PoolPut, FileClose],
                                     waited = t + t'\<rparr>)
                           | Expired \<Rightarrow>
                               \<lparr>status = 408, body = Raw ''{"error": "OCR processing timeout"}'',
                                effects = [PoolGet, MakeChan 1, Enqueue fileBytes filename,
                                           PoolPut, FileClose],
                                waited = t + processingTimeout\<rparr>))))))\<close>

section \<open>The worker pool as a transition system\<close>

text \<open>
  The goroutines of the program interleave. Their shared state is the job queue
  \<^verbatim>\<open>ocrWorkerPool\<close> (capacity 10, line 66), the reply channels made by the handlers
  (line 814), the three workers started by \<^verbatim>\<open>init\<close> (lines 67-69), the goroutines
  started by \<^verbatim>\<open>processOCRRequest\<close> (line 239) and the lock \<^verbatim>\<open>ocrMutex\<close>. Each
  event below is one step of one goroutine; the data of a response is chosen by the
  environment, and time is left out: a deadline may fire whenever its \<^verbatim>\<open>select\<close> waits.
\<close>

type_synonym chan_id = nat

record OCRRequest =
  ImageBytes :: string
  Filename :: string
  ResponseCh :: chan_id

text \<open>
  A reply channel: its capacity and buffer, and for the record the number of sends made
  on it so far, whether its request went into the queue, and where the handler that made
  it stands.
\<close>

datatype dpc = AwaitingResult | GotResult OCRResponse | GaveUp

record reply_chan =
  cap :: nat
  buf :: "OCRResponse list"
  sent :: nat
  enqueued :: bool
  reader :: dpc

text \<open>A send on a buffered channel goes through when the buffer has room, and blocks otherwise.\<close>

definition chan_send :: "reply_chan \<Rightarrow> OCRResponse \<Rightarrow> reply_chan option" where
  "chan_send ch v =
     (if length (buf ch) < cap ch then Some (ch\<lparr>buf := buf ch @ [v], sent := sent ch + 1\<rparr>)
      else None)"

text \<open>
  A worker (lines 199-204) is idle, or has taken a request and is in
  \<^verbatim>\<open>processOCRRequest\<close> before line 239, or waits in the \<^verbatim>\<open>select\<close> of line 262
  for the goroutine it started, or holds the response it is about to send (line 202).
  A goroutine of lines 239-259 is before \<^verbatim>\<open>RLock\<close>, inside the engine call, before
  \<^verbatim>\<open>RUnlock\<close>, before its send on \<^verbatim>\<open>resultCh\<close>, or done, its response lying in
  \<^verbatim>\<open>resultCh\<close> or taken from it.
\<close>

datatype wpc = Idle | Processing OCRRequest | Waiting OCRRequest nat | Replying OCRRequest OCRResponse

datatype gpc = AtRLock | InCall | AtRUnlock | AtSend | Posted OCRResponse | Taken

record sys =
  ocrWorkerPool :: "OCRRequest list"
  chans :: "reply_chan list"
  workers :: "wpc list"
  goroutines :: "gpc list"
  readerCount :: nat
  writerHeld :: bool

definition init :: sys where
  "init = \<lparr>ocrWorkerPool = [], chans = [], workers = [Idle, Idle, Idle], goroutines = [],
           readerCount = 0, writerHeld = False\<rparr>"

datatype event =
    Submit string string
  | Reject
  | Receive chan_id
  | GiveUp chan_id
  | Dequeue nat
  | EarlyReturn nat OCRResponse
  | Spawn nat
  | RLock nat
  | CallReturns nat
  | RUnlock nat
  | Post nat OCRResponse
  | TakeResult nat
  | Deadline nat
  | Reply nat

text \<open>
  \<open>step s e\<close> is the state after event \<open>e\<close>, or \<^term>\<open>None\<close> when \<open>e\<close> cannot
  happen in \<open>s\<close> (the goroutine is elsewhere, or it blocks).
  \<^item> \<open>Submit\<close>, \<open>Reject\<close>: a handler makes its reply channel (line 814) and either its
    send on the queue goes through (lines 817-821) or the admission timer fires (line 823).
  \<^item> \<open>Receive\<close>, \<open>GiveUp\<close>: the handler's second \<^verbatim>\<open>select\<close> (lines 831, 853).
  \<^item> \<open>Dequeue\<close>, \<open>Reply\<close>: the worker's loop (lines 200, 202).
  \<^item> \<open>EarlyReturn\<close>, \<open>Spawn\<close>, \<open>TakeResult\<close>, \<open>Deadline\<close>: \<^verbatim>\<open>processOCRRequest\<close>
    returns at line 208 or 219, starts its goroutine (line 239), receives its result
    (line 263) or times out (line 265).
  \<^item> \<open>RLock\<close>, \<open>CallReturns\<close>, \<open>RUnlock\<close>, \<open>Post\<close>: the goroutine (lines 240, 241,
    242, 245 or 258). \<^verbatim>\<open>RLock\<close> waits only for a writer; no line of the program
    calls \<^verbatim>\<open>ocrMutex.Lock\<close>, so no event sets \<open>writerHeld\<close>.
\<close>

fun step :: "sys \<Rightarrow> event \<Rightarrow> sys option" where
  "step s (Submit bytes name) =
     (if length (ocrWorkerPool s) < 10 then
        Some (s\<lparr>chans := chans s @
                   [\<lparr>cap = 1, buf = [], sent = 0, enqueued = True, reader = AwaitingResult\<rparr>],
                ocrWorkerPool := ocrWorkerPool s @
                   [\<lparr>ImageBytes = bytes, Filename = name, ResponseCh = length (chans s)\<rparr>]\<rparr>)
      else None)"
| "step s Reject =
     (if length (ocrWorkerPool s) < 10 then None
      else Some (s\<lparr>chans := chans s @
                   [\<lparr>cap = 1, buf = [], sent = 0, enqueued = False, reader = GaveUp\<rparr>]\<rparr>))"
| "step s (Receive c) =
     (if c < length (chans s) \<and> enqueued (chans s ! c) \<and> reader (chans s ! c) = AwaitingResult then
        (case buf (chans s ! c) of
           [] \<Rightarrow> None
         | r # rs \<Rightarrow>
             Some (s\<lparr>chans := (chans s)[c := (chans s ! c)\<lparr>buf := rs, reader := GotResult r\<rparr>]\<rparr>))
      else None)"
| "step s (GiveUp c) =
     (if c < length (chans s) \<and> enqueued (chans s ! c) \<and> reader (chans s ! c) = AwaitingResult then
        Some (s\<lparr>chans := (chans s)[c := (chans s ! c)\<lparr>reader := GaveUp\<rparr>]\<rparr>)
      else None)"
| "step s (Dequeue w) =
     (if w < length (workers s) \<and> workers s ! w = Idle then
        (case ocrWorkerPool s of
           [] \<Rightarrow> None
         | req # rest \<Rightarrow>
             Some (s\<lparr>ocrWorkerPool := rest, workers := (workers s)[w := Processing req]\<rparr>))
      else None)"
| "step s (EarlyReturn w resp) =
     (if w < length (workers s) then
        (case workers s ! w of
           Processing req \<Rightarrow> Some (s\<lparr>workers := (workers s)[w := Replying req resp]\<rparr>)
         | _ \<Rightarrow> None)
      else None)"
| "step s (Spawn w) =
     (if w < length (workers s) then
        (case workers s ! w of
           Processing req \<Rightarrow>
             Some (s\<lparr>workers := (workers s)[w := Waiting req (length (goroutines s))],
                     goroutines := goroutines s @ [AtRLock]\<rparr>)
         | _ \<Rightarrow> None)
      else None)"
| "step s (RLock g) =
     (if g < length (goroutines s) \<and> goroutines s ! g = AtRLock \<and> \<not> writerHeld s then
        Some (s\<lparr>goroutines := (goroutines s)[g := InCall], readerCount := readerCount s + 1\<rparr>)
      else None)"
| "step s (CallReturns g) =
     (if g < length (goroutines s) \<and> goroutines s ! g = InCall then
        Some (s\<lparr>goroutines := (goroutines s)[g := AtRUnlock]\<rparr>)
      else None)"
| "step s (RUnlock g) =
     (if g < length (goroutines s) \<and> goroutines s ! g = AtRUnlock then
        Some (s\<lparr>goroutines := (goroutines s)[g := AtSend], readerCount := readerCount s - 1\<rparr>)
      else None)"
| "step s (Post g r) =
     (if g < length (goroutines s) \<and> goroutines s ! g = AtSend then
        Some (s\<lparr>goroutines := (goroutines s)[g := Posted r]\<rparr>)
      else None)"
| "step s (TakeResult w) =
     (if w < length (workers s) then
        (case workers s ! w of
           Waiting req g \<Rightarrow>
             (if g < length (goroutines s) then
                (case goroutines s ! g of
                   Posted r \<Rightarrow>
                     Some (s\<lparr>workers := (workers s)[w := Replying req r],
                             goroutines := (goroutines s)[g := Taken]\<rparr>)
                 | _ \<Rightarrow> None)
              else None)
         | _ \<Rightarrow> None)
      else None)"
| "step s (Deadline w) =
     (if w < length (workers s) then
        (case workers s ! w of
           Waiting req g \<Rightarrow>
             Some (s\<lparr>workers := (workers s)
                     [w := Replying req \<lparr>Text = [], Err = Some ''OCR processing timeout''\<rparr>]\<rparr>)
         | _ \<Rightarrow> None)
      else None)"
| "step s (Reply w) =
     (if w < length (workers s) then
        (case workers s ! w of
           Replying req resp \<Rightarrow>
             (if ResponseCh req < length (chans s) then
                (case chan_send (chans s ! ResponseCh req) resp of
                   None \<Rightarrow> None
                 | Some ch \<Rightarrow>
                     Some (s\<lparr>chans := (chans s)[ResponseCh req := ch],
                             workers := (workers s)[w := Idle]\<rparr>))
              else None)
         | _ \<Rightarrow> None)
      else None)"

fun run :: "sys \<Rightarrow> event list \<Rightarrow> sys option" where
  "run s [] = Some s"
| "run s (e # es) = (case step s e of None \<Rightarrow> None | Some s' \<Rightarrow> run s' es)"

text \<open>The engine calls in flight, and the goroutines between \<^verbatim>\<open>RLock\<close> and \<^verbatim>\<open>RUnlock\<close>.\<close>

definition in_flight :: "sys \<Rightarrow> nat" where
  "in_flight s = count_list (goroutines s) InCall"

definition lock_holders :: "sys \<Rightarrow> nat" where
  "lock_holders s = count_list (goroutines s) InCall + count_list (goroutines s) AtRUnlock"





text \<open>
  Two invariants of the transition system. The lock: \<^verbatim>\<open>ocrMutex\<close> counts exactly the
  goroutines between \<^verbatim>\<open>RLock\<close> and \<^verbatim>\<open>RUnlock\<close>, and no writer holds it. The
  reply channels: a channel that exists has capacity 1; the requests naming it plus the
  sends made on it are one if its request was enqueued and none otherwise; its buffer
  holds no more than was sent; and nothing names a channel that does not exist yet.
\<close>

definition lock_inv :: "sys \<Rightarrow> bool" where
  "lock_inv s = (readerCount s = lock_holders s \<and> \<not> writerHeld s)"



section \<open>Concrete instances\<close>

text \<open>
  A library whose Unicode fallbacks leave their argument alone (they are not reached on
  ASCII input), and a world with no files in which no system call fails.
\<close>

definition lib0 :: golib where
  "lib0 = \<lparr>goos = Unix, mapUnicodeToLower = (\<lambda>s. s), trimFuncIsSpace = (\<lambda>s. s),
           trimRightFuncIsSpace = (\<lambda>s. s)\<rparr>"

definition w0 :: world where
  "w0 = \<lparr>files = Map.empty, createErr = (\<lambda>n. None), writeErr = (\<lambda>n. None),
         removeErr = (\<lambda>n. None), pool = [], logs = [], syscalls = []\<rparr>"

definition upload0 :: request where
  "upload0 = \<lparr>Method = ''POST'', ParseMultipartFormErr = False,
              image = FormFile ''scan.png'' (ReadOK ''PNG'')\<rparr>"

text \<open>A queue that never has room, and a queue with room at once but no reply ever.\<close>

definition sched_full :: sched where
  "sched_full = \<lparr>admit_at = None, admit_tie = False, reply_at = None, reply_tie = False\<rparr>"

definition sched_idle :: sched where
  "sched_idle = \<lparr>admit_at = Some 0, admit_tie = False, reply_at = None, reply_tie = False\<rparr>"

section \<open>Facts about the library functions\<close>

lemma validExts_loop_set: "validExts_loop ext vs = (ext \<in> set vs)"
  by (induction vs) auto

lemma scanSpace_ascii:
  "list_all isASCII s \<Longrightarrow> scanSpace s = Stopped (dropWhile asciiSpace s)"
  by (induction s) auto

lemma TrimSpace_ascii:
  assumes "list_all isASCII s"
  shows "TrimSpace lib s = rev (dropWhile asciiSpace (rev (dropWhile asciiSpace s)))"
proof -
  have "list_all isASCII (dropWhile asciiSpace s)"
    using assms by (auto simp: list_all_iff dest: set_dropWhileD)
  then have "list_all isASCII (rev (dropWhile asciiSpace s))"
    by (simp add: list_all_iff)
  then show ?thesis
    by (simp add: TrimSpace_def scanSpace_ascii assms)
qed

lemma showNat_small: "n < 10 \<Longrightarrow> showNat n = [digit n]"
  by (simp add: showNat.simps)

lemma showNat_big: "10 \<le> n \<Longrightarrow> showNat n = showNat (n div 10) @ [digit (n mod 10)]"
  by (subst showNat.simps) simp

lemma digit_in: "d < 10 \<Longrightarrow> digit d \<in> set ''0123456789''"
  unfolding digit_def by (rule nth_mem) simp

lemma digit_inj: "a < 10 \<Longrightarrow> b < 10 \<Longrightarrow> digit a = digit b \<Longrightarrow> a = b"
  unfolding digit_def
  by (subst (asm) nth_eq_iff_index_eq) simp_all

lemma showNat_digits: "set (showNat n) \<subseteq> set ''0123456789''"
proof (induction n rule: showNat.induct)
  case (1 n)
  show ?case
  proof (cases "n < 10")
    case True
    then show ?thesis using digit_in[of n] by (simp add: showNat_small)
  next
    case False
    then have "set (showNat (n div 10)) \<subseteq> set ''0123456789''" using 1 by simp
    moreover have "digit (n mod 10) \<in> set ''0123456789''" by (rule digit_in) simp
    ultimately show ?thesis using False by (simp add: showNat_big)
  qed
qed

lemma showNat_nonempty: "showNat n \<noteq> []"
  by (subst showNat.simps) simp

lemma showNat_inj: "showNat n = showNat m \<Longrightarrow> n = m"
proof (induction n arbitrary: m rule: showNat.induct)
  case (1 n)
  show ?case
  proof (cases "n < 10")
    case True
    show ?thesis
    proof (cases "m < 10")
      case True
      with \<open>n < 10\<close> 1(2) show ?thesis by (simp add: showNat_small digit_inj)
    next
      case False
      with \<open>n < 10\<close> 1(2) show ?thesis
        using showNat_nonempty[of "m div 10"] by (simp add: showNat_small showNat_big)
    qed
  next
    case False
    show ?thesis
    proof (cases "m < 10")
      case True
      with False 1(2) show ?thesis
        using showNat_nonempty[of "n div 10"] by (simp add: showNat_small showNat_big)
    next
      case mbig: False
      with False 1(2) have eq: "showNat (n div 10) = showNat (m div 10)"
          "digit (n mod 10) = digit (m mod 10)"
        by (simp_all add: showNat_big)
      from 1(1)[OF False eq(1)] have "n div 10 = m div 10" .
      moreover from eq(2) have "n mod 10 = m mod 10" by (intro digit_inj) simp_all
      ultimately show ?thesis by (metis div_mult_mod_eq)
    qed
  qed
qed

lemma fmt_d_no_underscore: "CHR ''_'' \<notin> set (fmt_d i)"
  using showNat_digits[of "nat i"] showNat_digits[of "nat (- i)"]
  by (auto simp: fmt_d_def)

lemma showNat_no_minus: "showNat n \<noteq> CHR ''-'' # xs"
proof
  assume "showNat n = CHR ''-'' # xs"
  then have "CHR ''-'' \<in> set (showNat n)" by simp
  with showNat_digits[of n] show False by auto
qed

lemma fmt_d_inj: "fmt_d a = fmt_d b \<Longrightarrow> a = b"
proof -
  assume eq: "fmt_d a = fmt_d b"
  show "a = b"
  proof (cases "a < 0"; cases "b < 0")
    assume "a < 0" "b < 0"
    with eq have "nat (- a) = nat (- b)" by (simp add: fmt_d_def showNat_inj)
    with \<open>a < 0\<close> \<open>b < 0\<close> show ?thesis by simp
  next
    assume "a < 0" "\<not> b < 0"
    with eq showNat_no_minus[of "nat b" "showNat (nat (- a))"] show ?thesis
      by (simp add: fmt_d_def)
  next
    assume "\<not> a < 0" "b < 0"
    with eq showNat_no_minus[of "nat a" "showNat (nat (- b))"] show ?thesis
      by (simp add: fmt_d_def)
  next
    assume "\<not> a < 0" "\<not> b < 0"
    with eq have "nat a = nat b" by (simp add: fmt_d_def showNat_inj)
    with \<open>\<not> a < 0\<close> \<open>\<not> b < 0\<close> show ?thesis by simp
  qed
qed

lemma split_at_first:
  "x \<notin> set xs \<Longrightarrow> x \<notin> set xs' \<Longrightarrow> xs @ x # ys = xs' @ x # ys' \<Longrightarrow> xs = xs' \<and> ys = ys'"
proof (induction xs arbitrary: xs')
  case Nil
  then show ?case by (cases xs') auto
next
  case (Cons a as)
  then show ?case by (cases xs') auto
qed

text \<open>
  Two temporary names are equal only when both the clock reading and the file name are:
  the decimal digits of the time stamp end at the first underscore.
\<close>

lemma tempFileName_eq_iff:
  "tempFileName a f = tempFileName b g \<longleftrightarrow> a = b \<and> f = g"
proof
  assume "tempFileName a f = tempFileName b g"
  then have "fmt_d a @ CHR ''_'' # f = fmt_d b @ CHR ''_'' # g"
    by (simp add: tempFileName_def)
  then have "fmt_d a = fmt_d b \<and> f = g"
    by (rule split_at_first[OF fmt_d_no_underscore fmt_d_no_underscore])
  then show "a = b \<and> f = g" by (auto dest: fmt_d_inj)
next
  assume "a = b \<and> f = g"
  then show "tempFileName a f = tempFileName b g" by simp
qed

lemma tempFileName_example:
  "tempFileName 1700000000000000000 ''scan.png'' = ''temp_1700000000000000000_scan.png''"
  by (simp add: tempFileName_def fmt_d_def showNat_small showNat_big digit_def)

section \<open>Facts about the file operations\<close>

lemma wio_plain:
  "writeImageFileOptimized w f d =
     (fst (writeImageFilePlain w f d),
      (snd (writeImageFilePlain w f d))
        \<lparr>pool := (if createErr w f = None \<and> 32 * 1024 < length d then [] # tl (pool w)
                  else pool w)\<rparr>)"
  unfolding writeImageFileOptimized_def writeImageFilePlain_def
  by (cases "d = []")
     (auto simp: Buffer_WriteTo_def file_Write_def Buffer_Write_def Let_def pool_Get_def
        pool_Put_def file_Close_def os_Create_def split: option.splits prod.splits list.splits)

lemma plain_ok:
  "fst (writeImageFilePlain w f d) = None \<Longrightarrow> files (snd (writeImageFilePlain w f d)) f = Some d"
  unfolding writeImageFilePlain_def
  by (auto simp: file_Write_def Let_def file_Close_def os_Create_def
      split: option.splits prod.splits)

lemma plain_ok_iff:
  "fst (writeImageFilePlain w f d) = None \<longleftrightarrow> createErr w f = None \<and> writeErr w f = None"
  unfolding writeImageFilePlain_def
  by (auto simp: file_Write_def Let_def file_Close_def os_Create_def
      split: option.splits prod.splits)

lemma wio_ok_iff:
  "fst (writeImageFileOptimized w f d) = None \<longleftrightarrow> createErr w f = None \<and> writeErr w f = None"
  by (simp add: wio_plain plain_ok_iff)

lemma wio_file:
  "fst (writeImageFileOptimized w f d) = None \<Longrightarrow>
   files (snd (writeImageFileOptimized w f d)) f = Some d"
  by (simp add: wio_plain plain_ok)

lemma removeErr_wio:
  "writeImageFileOptimized (w\<lparr>removeErr := re\<rparr>) f d =
     (fst (writeImageFileOptimized w f d), (snd (writeImageFileOptimized w f d))\<lparr>removeErr := re\<rparr>)"
  unfolding writeImageFileOptimized_def
  by (auto simp: Buffer_WriteTo_def file_Write_def Buffer_Write_def Let_def pool_Get_def
        pool_Put_def file_Close_def os_Create_def split: option.splits prod.splits list.splits)

lemma wio_frame:
  "removeErr (snd (writeImageFileOptimized w f d)) = removeErr w"
  "logs (snd (writeImageFileOptimized w f d)) = logs w"
  "count_list (syscalls (snd (writeImageFileOptimized w f d))) (SysRemove n) =
     count_list (syscalls w) (SysRemove n)"
  unfolding writeImageFileOptimized_def
  by (auto simp: Buffer_WriteTo_def file_Write_def Buffer_Write_def Let_def pool_Get_def
        pool_Put_def file_Close_def os_Create_def split: option.splits prod.splits list.splits)

lemma cleanup_syscalls:
  "syscalls (cleanup w f) = syscalls w @ [SysRemove f]"
  by (auto simp: cleanup_def os_Remove_def log_Printf_def Let_def split: option.splits)

lemma cleanup_files:
  "removeErr w f = None \<Longrightarrow> files (cleanup w f) f = None"
  by (auto simp: cleanup_def os_Remove_def log_Printf_def Let_def split: option.splits)

lemma cleanup_logs:
  "logs (cleanup w f) =
     (case removeErr w f of
        Some e \<Rightarrow> logs w @ [''Warning: failed to remove temporary file '' @ f @ '': '' @ e]
      | None \<Rightarrow>
          if files w f = None
          then logs w @ [''Warning: failed to remove temporary file '' @ f @
                          '': remove '' @ f @ '': no such file or directory'']
          else logs w)"
  by (auto simp: cleanup_def os_Remove_def log_Printf_def Let_def split: option.splits)

section \<open>Facts about processOCRRequest\<close>

lemma proc_written:
  assumes "fst (writeImageFileOptimized w (tempFileName now filename) imageBytes) = None"
  shows "processOCRRequest lib True now eng tie w imageBytes filename =
     (let posted = (case eng of Never \<Rightarrow> None
                    | Returns d text err \<Rightarrow> Some (d, engine_goroutine lib text err));
          (result, at, left) =
                    (case select_or_timeout engineCallTimeout posted tie of
                       Received t r \<Rightarrow> (r, t, [])
                     | Expired \<Rightarrow>
                         (\<lparr>Text = [], Err = Some ''OCR processing timeout''\<rparr>, engineCallTimeout,
                          (case posted of None \<Rightarrow> [] | Some (d, r) \<Rightarrow> [r])))
      in \<lparr>response = result, returned_at = at, resultCh_left = left,
          world_after = cleanup (snd (writeImageFileOptimized w (tempFileName now filename) imageBytes))
                          (tempFileName now filename)\<rparr>)"
  using assms unfolding processOCRRequest_def
  by (cases "writeImageFileOptimized w (tempFileName now filename) imageBytes") (simp add: Let_def)

lemma proc_world:
  assumes "fst (writeImageFileOptimized w (tempFileName now filename) imageBytes) = None"
  shows "world_after (processOCRRequest lib True now eng tie w imageBytes filename) =
      cleanup (snd (writeImageFileOptimized w (tempFileName now filename) imageBytes))
        (tempFileName now filename)"
  by (simp add: proc_written[OF assms] Let_def split: prod.splits)

lemma proc_response:
  assumes "fst (writeImageFileOptimized w (tempFileName now filename) imageBytes) = None"
  shows "response (processOCRRequest lib True now eng tie w imageBytes filename) =
     (case eng of
        Never \<Rightarrow> \<lparr>Text = [], Err = Some ''OCR processing timeout''\<rparr>
      | Returns d text err \<Rightarrow>
          if d < engineCallTimeout \<or> (d = engineCallTimeout \<and> tie) then engine_goroutine lib text err
          else \<lparr>Text = [], Err = Some ''OCR processing timeout''\<rparr>)"
  by (simp add: proc_written[OF assms] Let_def select_or_timeout_def
      split: prod.splits engine_call.splits)

lemma proc_response_removeErr:
  "response (processOCRRequest lib clientReady now eng tie (w\<lparr>removeErr := re\<rparr>) imageBytes filename) =
   response (processOCRRequest lib clientReady now eng tie w imageBytes filename)"
  unfolding processOCRRequest_def
  by (cases "writeImageFileOptimized w (tempFileName now filename) imageBytes")
     (auto simp: removeErr_wio Let_def split: prod.splits option.splits)

lemma success_nonempty:
  "Err (response (processOCRRequest lib clientReady now eng tie w imageBytes filename)) = None \<Longrightarrow>
   Text (response (processOCRRequest lib clientReady now eng tie w imageBytes filename)) \<noteq> []"
  unfolding processOCRRequest_def
  by (cases "writeImageFileOptimized w (tempFileName now filename) imageBytes")
     (auto simp: Let_def select_or_timeout_def engine_goroutine_def
        split: prod.splits option.splits engine_call.splits if_splits)

lemma w0_write_ok:
  "fst (writeImageFileOptimized w0 f d) = None"
  by (simp add: wio_ok_iff w0_def)

lemma wio_oracles:
  "createErr (snd (writeImageFileOptimized w f d)) = createErr w"
  "writeErr (snd (writeImageFileOptimized w f d)) = writeErr w"
  unfolding writeImageFileOptimized_def
  by (auto simp: Buffer_WriteTo_def file_Write_def Buffer_Write_def Let_def pool_Get_def
        pool_Put_def file_Close_def os_Create_def split: option.splits prod.splits list.splits)

lemma scan_png_valid: "isValidImageType lib0 ''scan.png''"
  by code_simp

lemma trim_hello: "TrimSpace lib0 ''  Hello  '' = ''Hello''"
  by code_simp

lemma trim_blank: "TrimSpace lib0 ''   '' = []"
  by code_simp

lemma notes_ext: "ToLower lib0 (Ext (goos lib0) ''notes.TXT'') = ''.txt''"
  by code_simp

lemma photo_ext: "ToLower lib0 (Ext (goos lib0) ''Photo.JPEG'') = ''.jpeg''"
  by code_simp

section \<open>The claims about the worker\<close>

text \<open>
  Claim C10. For every file name and every data, \<^verbatim>\<open>writeImageFileOptimized\<close> does to
  the files what the plain write does: it returns the same error, leaves the same files
  and makes the same system calls, whatever the length of the data, so the large-payload
  branch (through a \<^verbatim>\<open>bytes.Buffer\<close>, with a pooled buffer that takes no part in the
  copy) and the small-payload branch coincide; and whenever it returns no error the file
  holds exactly the data.
\<close>

theorem writeImageFileOptimized_writes_data:
  "fst (writeImageFileOptimized w filename data) = fst (writeImageFilePlain w filename data)
   \<and> files (snd (writeImageFileOptimized w filename data)) =
       files (snd (writeImageFilePlain w filename data))
   \<and> syscalls (snd (writeImageFileOptimized w filename data)) =
       syscalls (snd (writeImageFilePlain w filename data))
   \<and> (fst (writeImageFileOptimized w filename data) = None \<longrightarrow>
        files (snd (writeImageFileOptimized w filename data)) filename = Some data)"
  by (simp add: wio_plain plain_ok)

theorem writeImageFileOptimized_writes_data_witness:
  "32 * 1024 < length (replicate 40000 (CHR ''x''))
   \<and> fst (writeImageFileOptimized w0 ''temp_1_scan.png'' (replicate 40000 (CHR ''x''))) = None
   \<and> files (snd (writeImageFileOptimized w0 ''temp_1_scan.png'' (replicate 40000 (CHR ''x''))))
        ''temp_1_scan.png'' = Some (replicate 40000 (CHR ''x''))
   \<and> fst (writeImageFileOptimized w0 ''temp_1_scan.png'' ''PNG'') = None
   \<and> files (snd (writeImageFileOptimized w0 ''temp_1_scan.png'' ''PNG'')) ''temp_1_scan.png''
        = Some ''PNG''"
proof -
  have len: "32 * 1024 < length (replicate 40000 (CHR ''x''))" by simp
  have big: "files (snd (writeImageFileOptimized w0 ''temp_1_scan.png'' (replicate 40000 (CHR ''x''))))
        ''temp_1_scan.png'' = Some (replicate 40000 (CHR ''x''))"
    using writeImageFileOptimized_writes_data[of w0 "''temp_1_scan.png''" "replicate 40000 (CHR ''x'')"]
      w0_write_ok[of "''temp_1_scan.png''" "replicate 40000 (CHR ''x'')"]
    by blast
  have small: "files (snd (writeImageFileOptimized w0 ''temp_1_scan.png'' ''PNG'')) ''temp_1_scan.png''
        = Some ''PNG''"
    using writeImageFileOptimized_writes_data[of w0 "''temp_1_scan.png''" "''PNG''"]
      w0_write_ok[of "''temp_1_scan.png''" "''PNG''"]
    by blast
  show ?thesis
    using len big small w0_write_ok by blast
qed

text \<open>
  Claim C3. When the temporary file was written and the engine call returns text \<open>t\<close>
  without error before the deadline, the response has no error and its text is \<open>t\<close>
  with the surrounding white space trimmed (for ASCII text: the leading and the trailing
  run of tab, line feed, vertical tab, form feed, carriage return and space are dropped),
  or the sentinel "No text detected in the image." when nothing is left. On no path
  does a response without an error carry an empty text.
\<close>

theorem text_normalised:
  assumes "fst (writeImageFileOptimized w (tempFileName now filename) imageBytes) = None"
    and "d < engineCallTimeout"
  shows "response (processOCRRequest lib True now (Returns d t None) tie w imageBytes filename) =
           \<lparr>Text = (if TrimSpace lib t = [] then ''No text detected in the image.''
                    else TrimSpace lib t),
            Err = None\<rparr>
     \<and> (list_all isASCII t \<longrightarrow>
          TrimSpace lib t = rev (dropWhile asciiSpace (rev (dropWhile asciiSpace t))))
     \<and> (Err (response (processOCRRequest lib c n' eng' tie' w' b f)) = None \<longrightarrow>
          Text (response (processOCRRequest lib c n' eng' tie' w' b f)) \<noteq> [])"
  using assms(2)
  by (simp add: proc_response[OF assms(1)] engine_goroutine_def success_nonempty Let_def
      TrimSpace_ascii)

theorem text_normalised_witness:
  "fst (writeImageFileOptimized w0 (tempFileName 1700000000000000000 ''scan.png'') ''PNG'') = None
   \<and> 2 * Second < engineCallTimeout
   \<and> response (processOCRRequest lib0 True 1700000000000000000
        (Returns (2 * Second) ''  Hello  '' None) False w0 ''PNG'' ''scan.png'')
       = \<lparr>Text = ''Hello'', Err = None\<rparr>
   \<and> response (processOCRRequest lib0 True 1700000000000000000
        (Returns (2 * Second) ''   '' None) False w0 ''PNG'' ''scan.png'')
       = \<lparr>Text = ''No text detected in the image.'', Err = None\<rparr>"
proof -
  have d: "2 * Second < engineCallTimeout"
    by (simp add: Second_def engineCallTimeout_def)
  have "response (processOCRRequest lib0 True 1700000000000000000
        (Returns (2 * Second) ''  Hello  '' None) False w0 ''PNG'' ''scan.png'')
       = \<lparr>Text = (if TrimSpace lib0 ''  Hello  '' = [] then ''No text detected in the image.''
                  else TrimSpace lib0 ''  Hello  ''), Err = None\<rparr>"
    using text_normalised[OF w0_write_ok d, where lib = lib0 and t = "''  Hello  ''" and tie = False]
    by (rule conjunct1)
  then have hello: "response (processOCRRequest lib0 True 1700000000000000000
        (Returns (2 * Second) ''  Hello  '' None) False w0 ''PNG'' ''scan.png'')
       = \<lparr>Text = ''Hello'', Err = None\<rparr>"
    by (simp add: trim_hello)
  have "response (processOCRRequest lib0 True 1700000000000000000
        (Returns (2 * Second) ''   '' None) False w0 ''PNG'' ''scan.png'')
       = \<lparr>Text = (if TrimSpace lib0 ''   '' = [] then ''No text detected in the image.''
                  else TrimSpace lib0 ''   ''), Err = None\<rparr>"
    using text_normalised[OF w0_write_ok d, where lib = lib0 and t = "''   ''" and tie = False]
    by (rule conjunct1)
  then have blank: "response (processOCRRequest lib0 True 1700000000000000000
        (Returns (2 * Second) ''   '' None) False w0 ''PNG'' ''scan.png'')
       = \<lparr>Text = ''No text detected in the image.'', Err = None\<rparr>"
    by (simp add: trim_blank)
  show ?thesis
    using w0_write_ok d hello blank by blast
qed

text \<open>
  Claim C4. When the temporary file was written, \<^verbatim>\<open>processOCRRequest\<close> calls
  \<^verbatim>\<open>os.Remove\<close> on it exactly once, whatever the engine call does (success, error,
  no return before the deadline, no return at all): the calls made on that name are one
  more than before. When the removal succeeds the file is gone; when it fails the only
  trace is a line in the log, and the response is the same whether removals fail or not.
\<close>

theorem temp_file_removed_once:
  assumes "fst (writeImageFileOptimized w (tempFileName now filename) imageBytes) = None"
  shows "count_list (syscalls (world_after (processOCRRequest lib True now eng tie w imageBytes filename)))
             (SysRemove (tempFileName now filename))
           = Suc (count_list (syscalls w) (SysRemove (tempFileName now filename)))
     \<and> (removeErr w (tempFileName now filename) = None \<longrightarrow>
          files (world_after (processOCRRequest lib True now eng tie w imageBytes filename))
            (tempFileName now filename) = None)
     \<and> (removeErr w (tempFileName now filename) = Some e \<longrightarrow>
          logs (world_after (processOCRRequest lib True now eng tie w imageBytes filename)) =
            logs w @ [''Warning: failed to remove temporary file '' @ tempFileName now filename
                       @ '': '' @ e])
     \<and> response (processOCRRequest lib True now eng tie (w\<lparr>removeErr := re\<rparr>) imageBytes filename)
         = response (processOCRRequest lib True now eng tie w imageBytes filename)"
  by (simp add: proc_world[OF assms] cleanup_syscalls cleanup_files cleanup_logs wio_frame
      proc_response_removeErr)

theorem temp_file_removed_once_witness:
  "fst (writeImageFileOptimized w0 (tempFileName 1700000000000000000 ''scan.png'') ''PNG'') = None
   \<and> count_list (syscalls (world_after (processOCRRequest lib0 True 1700000000000000000
          Never False w0 ''PNG'' ''scan.png''))) (SysRemove ''temp_1700000000000000000_scan.png'') = 1
   \<and> files (world_after (processOCRRequest lib0 True 1700000000000000000
          Never False w0 ''PNG'' ''scan.png'')) ''temp_1700000000000000000_scan.png'' = None
   \<and> logs (world_after (processOCRRequest lib0 True 1700000000000000000
          (Returns Second ''text'' None) False (w0\<lparr>removeErr := (\<lambda>n. Some ''busy'')\<rparr>) ''PNG'' ''scan.png''))
       = [''Warning: failed to remove temporary file temp_1700000000000000000_scan.png: busy'']
   \<and> response (processOCRRequest lib0 True 1700000000000000000
          (Returns Second ''text'' None) False (w0\<lparr>removeErr := (\<lambda>n. Some ''busy'')\<rparr>) ''PNG'' ''scan.png'')
       = response (processOCRRequest lib0 True 1700000000000000000
          (Returns Second ''text'' None) False w0 ''PNG'' ''scan.png'')"
proof -
  let ?busy = "w0\<lparr>removeErr := (\<lambda>n. Some ''busy'')\<rparr>"
  have ok: "fst (writeImageFileOptimized ?busy (tempFileName 1700000000000000000 ''scan.png'') ''PNG'')
              = None"
    by (simp add: wio_ok_iff w0_def)
  note never = temp_file_removed_once[OF w0_write_ok, where lib = lib0 and eng = Never
      and tie = False and now = 1700000000000000000 and filename = "''scan.png''"
      and imageBytes = "''PNG''" and e = "[]" and re = "removeErr w0"]
  note busy = temp_file_removed_once[OF ok, where lib = lib0
      and eng = "Returns Second ''text'' None" and tie = False and e = "''busy''"
      and re = "removeErr w0"]
  note same = temp_file_removed_once[OF w0_write_ok, where lib = lib0
      and eng = "Returns Second ''text'' None" and tie = False
      and now = 1700000000000000000 and filename = "''scan.png''" and imageBytes = "''PNG''"
      and e = "[]" and re = "\<lambda>n. Some ''busy''"]
  have once: "count_list (syscalls (world_after (processOCRRequest lib0 True 1700000000000000000
          Never False w0 ''PNG'' ''scan.png''))) (SysRemove ''temp_1700000000000000000_scan.png'') = 1"
    using never by (simp add: tempFileName_example w0_def)
  have gone: "files (world_after (processOCRRequest lib0 True 1700000000000000000
          Never False w0 ''PNG'' ''scan.png'')) ''temp_1700000000000000000_scan.png'' = None"
    using never by (simp add: tempFileName_example w0_def)
  have logged: "logs (world_after (processOCRRequest lib0 True 1700000000000000000
          (Returns Second ''text'' None) False ?busy ''PNG'' ''scan.png''))
       = [''Warning: failed to remove temporary file temp_1700000000000000000_scan.png: busy'']"
    using busy by (simp add: tempFileName_example w0_def)
  have resp: "response (processOCRRequest lib0 True 1700000000000000000
          (Returns Second ''text'' None) False ?busy ''PNG'' ''scan.png'')
       = response (processOCRRequest lib0 True 1700000000000000000
          (Returns Second ''text'' None) False w0 ''PNG'' ''scan.png'')"
    using same by simp
  show ?thesis
    using w0_write_ok once gone logged resp by blast
qed

text \<open>
  Claim C2. When the temporary file was written and the engine call does not return
  within the deadline of 30 seconds (it returns later, or never), \<^verbatim>\<open>processOCRRequest\<close>
  returns at the deadline with the timeout response: empty text and the error
  "OCR processing timeout". The engine call is not cancelled: if it returns later, the
  goroutine's response is still put into \<^verbatim>\<open>resultCh\<close>, where nobody receives it. The
  handler waits 35 seconds, longer than the 30 seconds of the worker; so when the worker
  starts the engine call \<open>q\<close> after admission with \<open>q\<close> + 30s < 35s, the worker's
  timeout response reaches the handler first and the handler answers 500 with that
  error, not 408.
\<close>

theorem engine_timeout_result:
  assumes "fst (writeImageFileOptimized w (tempFileName now filename) imageBytes) = None"
    and "eng = Never \<or> (\<exists>d t e. eng = Returns d t e \<and> engineCallTimeout < d)"
  shows \<open>response (processOCRRequest lib True now eng tie w imageBytes filename) =
           \<lparr>Text = [], Err = Some ''OCR processing timeout''\<rparr>
     \<and> returned_at (processOCRRequest lib True now eng tie w imageBytes filename) = engineCallTimeout
     \<and> engineCallTimeout = 30 * Second
     \<and> resultCh_left (processOCRRequest lib True now eng tie w imageBytes filename) =
          (case eng of Never \<Rightarrow> [] | Returns d t e \<Rightarrow> [engine_goroutine lib t e])
     \<and> engineCallTimeout < processingTimeout
     \<and> processingTimeout = 35 * Second
     \<and> (q + engineCallTimeout < processingTimeout \<and> a < admissionTimeout \<and>
         Method req = ''POST'' \<and> \<not> ParseMultipartFormErr req \<and>
         image req = FormFile name (ReadOK bytes) \<and> isValidImageType lib name \<and>
         admit_at sc = Some a \<and>
         reply_at sc =
           Some (q + returned_at (processOCRRequest lib True now eng tie w imageBytes filename),
                 response (processOCRRequest lib True now eng tie w imageBytes filename))
         \<longrightarrow> status (uploadHandler lib True True sc req) = 500
             \<and> body (uploadHandler lib True True sc req) =
                 Raw ''{"error": "OCR failed: OCR processing timeout"}'')\<close>
proof -
  let ?r = "processOCRRequest lib True now eng tie w imageBytes filename"
  have r: "response ?r = \<lparr>Text = [], Err = Some ''OCR processing timeout''\<rparr>"
    using assms(2) by (auto simp: proc_response[OF assms(1)])
  have at: "returned_at ?r = engineCallTimeout"
    using assms(2) by (auto simp: proc_written[OF assms(1)] Let_def select_or_timeout_def)
  have left: "resultCh_left ?r =
      (case eng of Never \<Rightarrow> [] | Returns d t e \<Rightarrow> [engine_goroutine lib t e])"
    using assms(2) by (auto simp: proc_written[OF assms(1)] Let_def select_or_timeout_def)
  have lt: "engineCallTimeout < processingTimeout"
    by (simp add: engineCallTimeout_def processingTimeout_def Second_def)
  have h: \<open>status (uploadHandler lib True True sc req) = 500
        \<and> body (uploadHandler lib True True sc req) =
            Raw ''{"error": "OCR failed: OCR processing timeout"}''\<close>
    if "q + engineCallTimeout < processingTimeout" "a < admissionTimeout"
       "Method req = ''POST''" "\<not> ParseMultipartFormErr req"
       "image req = FormFile name (ReadOK bytes)" "isValidImageType lib name"
       "admit_at sc = Some a" "reply_at sc = Some (q + returned_at ?r, response ?r)"
    using that by (simp add: uploadHandler_def select_or_timeout_def r at)
  show ?thesis
    using r at left lt h by (simp add: engineCallTimeout_def processingTimeout_def)
qed

theorem engine_timeout_result_witness:
  \<open>fst (writeImageFileOptimized w0 (tempFileName 1700000000000000000 ''scan.png'') ''PNG'') = None
   \<and> engineCallTimeout < 31 * Second
   \<and> response (processOCRRequest lib0 True 1700000000000000000
        (Returns (31 * Second) ''late'' None) False w0 ''PNG'' ''scan.png'')
       = \<lparr>Text = [], Err = Some ''OCR processing timeout''\<rparr>
   \<and> resultCh_left (processOCRRequest lib0 True 1700000000000000000
        (Returns (31 * Second) ''late'' None) False w0 ''PNG'' ''scan.png'')
       = [\<lparr>Text = ''late'', Err = None\<rparr>]
   \<and> response (processOCRRequest lib0 True 1700000000000000000 Never False w0 ''PNG'' ''scan.png'')
       = \<lparr>Text = [], Err = Some ''OCR processing timeout''\<rparr>
   \<and> status (uploadHandler lib0 True True
        \<lparr>admit_at = Some 0, admit_tie = False,
         reply_at = Some (Second + 30 * Second, \<lparr>Text = [], Err = Some ''OCR processing timeout''\<rparr>),
         reply_tie = False\<rparr> upload0) = 500\<close>
proof -
  let ?late = "Returns (31 * Second) ''late'' None"
  let ?sc = "\<lparr>admit_at = Some 0, admit_tie = False,
         reply_at = Some (Second + 30 * Second, \<lparr>Text = [], Err = Some ''OCR processing timeout''\<rparr>),
         reply_tie = False\<rparr>"
  have d: "engineCallTimeout < 31 * Second"
    by (simp add: engineCallTimeout_def Second_def)
  then have e: "?late = Never \<or> (\<exists>d t e. ?late = Returns d t e \<and> engineCallTimeout < d)"
    by blast
  have n: "Never = Never \<or> (\<exists>d t e. Never = Returns d t e \<and> engineCallTimeout < d)"
    by blast
  have trim: "TrimSpace lib0 ''late'' = ''late''"
    by code_simp
  note L = engine_timeout_result[OF w0_write_ok e, where lib = lib0 and tie = False
      and now = 1700000000000000000 and filename = "''scan.png''" and imageBytes = "''PNG''"
      and q = Second and a = 0 and req = upload0 and name = "''scan.png''" and bytes = "''PNG''"
      and sc = ?sc]
  note N = engine_timeout_result[OF w0_write_ok n, where lib = lib0 and tie = False
      and now = 1700000000000000000 and filename = "''scan.png''" and imageBytes = "''PNG''"
      and q = Second and a = 0 and req = upload0 and name = "''scan.png''" and bytes = "''PNG''"
      and sc = ?sc]
  have r: "response (processOCRRequest lib0 True 1700000000000000000 ?late False w0 ''PNG'' ''scan.png'')
       = \<lparr>Text = [], Err = Some ''OCR processing timeout''\<rparr>"
    using L by blast
  have at: "returned_at (processOCRRequest lib0 True 1700000000000000000 ?late False w0 ''PNG'' ''scan.png'')
       = 30 * Second"
    using L by simp
  have left: "resultCh_left (processOCRRequest lib0 True 1700000000000000000 ?late False w0 ''PNG'' ''scan.png'')
       = [\<lparr>Text = ''late'', Err = None\<rparr>]"
    using L by (simp add: engine_goroutine_def trim)
  have never: "response (processOCRRequest lib0 True 1700000000000000000 Never False w0 ''PNG'' ''scan.png'')
       = \<lparr>Text = [], Err = Some ''OCR processing timeout''\<rparr>"
    using N by blast
  have pre: "Second + engineCallTimeout < processingTimeout" "0 < admissionTimeout"
      "Method upload0 = ''POST''" "\<not> ParseMultipartFormErr upload0"
      "image upload0 = FormFile ''scan.png'' (ReadOK ''PNG'')"
    by (simp_all add: engineCallTimeout_def processingTimeout_def admissionTimeout_def Second_def
        upload0_def)
  have rep: "reply_at ?sc = Some (Second +
        returned_at (processOCRRequest lib0 True 1700000000000000000 ?late False w0 ''PNG'' ''scan.png''),
        response (processOCRRequest lib0 True 1700000000000000000 ?late False w0 ''PNG'' ''scan.png''))"
    by (simp add: r at)
  have adm: "admit_at ?sc = Some 0"
    by simp
  have "status (uploadHandler lib0 True True ?sc upload0) = 500"
    using L pre adm rep scan_png_valid by blast
  then show ?thesis
    using w0_write_ok d r left never by blast
qed

section \<open>The claims about the handler\<close>

text \<open>
  Claim C5. A POST request that passes every check before admission (engine available,
  form parsed, file present with a supported extension, file read) while the queue has
  no room during the whole admission window (room comes after more than 5 seconds, or
  never) is answered after exactly the admission timeout of 5 seconds with status 503 and
  the "service busy" body. The reply channel was made, but no request was put into the
  queue.
\<close>

theorem admission_timeout_service_busy:
  assumes "Method r = ''POST''" and "\<not> ParseMultipartFormErr r"
    and "image r = FormFile filename (ReadOK fileBytes)"
    and "isValidImageType lib filename"
    and "admit_at sc = None \<or> (\<exists>t. admit_at sc = Some t \<and> admissionTimeout < t)"
  shows \<open>uploadHandler lib True True sc r =
           \<lparr>status = 503, body = Raw ''{"error": "OCR service busy, please try again"}'',
            effects = [PoolGet, MakeChan 1, PoolPut, FileClose], waited = admissionTimeout\<rparr>
       \<and> admissionTimeout = 5 * Second
       \<and> Enqueue fileBytes filename \<notin> set (effects (uploadHandler lib True True sc r))\<close>
  using assms
  by (auto simp: uploadHandler_def select_or_timeout_def admissionTimeout_def)

theorem admission_timeout_service_busy_witness:
  \<open>Method upload0 = ''POST'' \<and> isValidImageType lib0 ''scan.png'' \<and> admit_at sched_full = None
   \<and> status (uploadHandler lib0 True True sched_full upload0) = 503
   \<and> body (uploadHandler lib0 True True sched_full upload0) =
        Raw ''{"error": "OCR service busy, please try again"}''
   \<and> waited (uploadHandler lib0 True True sched_full upload0) = 5 * Second\<close>
proof -
  have pre: "Method upload0 = ''POST''" "\<not> ParseMultipartFormErr upload0"
      "image upload0 = FormFile ''scan.png'' (ReadOK ''PNG'')"
    by (simp_all add: upload0_def)
  have full: "admit_at sched_full = None"
    by (simp add: sched_full_def)
  then have adm: "admit_at sched_full = None \<or> (\<exists>t. admit_at sched_full = Some t \<and> admissionTimeout < t)"
    by blast
  note T = admission_timeout_service_busy[OF pre scan_png_valid adm]
  from T have \<open>uploadHandler lib0 True True sched_full upload0 =
           \<lparr>status = 503, body = Raw ''{"error": "OCR service busy, please try again"}'',
            effects = [PoolGet, MakeChan 1, PoolPut, FileClose], waited = admissionTimeout\<rparr>\<close>
       and "admissionTimeout = 5 * Second"
    by blast+
  then show ?thesis
    using pre(1) scan_png_valid full by simp
qed

text \<open>
  Claim C6. A POST request that arrives while the engine is unavailable
  (\<^verbatim>\<open>tesseractFound\<close> false or \<^verbatim>\<open>ocrClient\<close> nil) is answered at once with status 503
  and the fixed "not configured" body: the handler has no effect on shared state (no
  channel made, nothing enqueued) and does not wait.
\<close>

theorem engine_unavailable_not_configured:
  assumes "Method r = ''POST''" and "\<not> tesseractFound \<or> \<not> clientReady"
  shows \<open>uploadHandler lib tesseractFound clientReady sc r =
           \<lparr>status = 503,
            body = Raw ''{"error": "Tesseract OCR not configured. Please visit /setup for installation instructions."}'',
            effects = [], waited = 0\<rparr>\<close>
  using assms by (auto simp: uploadHandler_def)

theorem engine_unavailable_not_configured_witness:
  \<open>Method upload0 = ''POST''
   \<and> uploadHandler lib0 False True sched_idle upload0 =
           \<lparr>status = 503,
            body = Raw ''{"error": "Tesseract OCR not configured. Please visit /setup for installation instructions."}'',
            effects = [], waited = 0\<rparr>
   \<and> uploadHandler lib0 True False sched_idle upload0 =
           \<lparr>status = 503,
            body = Raw ''{"error": "Tesseract OCR not configured. Please visit /setup for installation instructions."}'',
            effects = [], waited = 0\<rparr>\<close>
proof -
  have m: "Method upload0 = ''POST''"
    by (simp add: upload0_def)
  have a: "\<not> False \<or> \<not> True" and b: "\<not> True \<or> \<not> False"
    by simp_all
  show ?thesis
    using m engine_unavailable_not_configured[OF m a, of lib0 sched_idle]
      engine_unavailable_not_configured[OF m b, of lib0 sched_idle]
    by blast
qed

text \<open>
  Claim C7. \<^verbatim>\<open>isValidImageType\<close> is true exactly when the lower-cased extension of
  the file name is one of .png, .jpg, .jpeg, .gif, .bmp, .tiff. A POST request that
  reaches the check (engine available, form parsed, file present) with any other
  extension is answered with status 400; the handler only closes the file: no channel is
  made and nothing is enqueued.
\<close>

theorem unsupported_extension_rejected:
  \<open>isValidImageType lib filename =
     (ToLower lib (Ext (goos lib) filename) \<in>
        {''.png'', ''.jpg'', ''.jpeg'', ''.gif'', ''.bmp'', ''.tiff''})
   \<and> (Method r = ''POST'' \<and> \<not> ParseMultipartFormErr r \<and> image r = FormFile filename content \<and>
       ToLower lib (Ext (goos lib) filename) \<notin>
         {''.png'', ''.jpg'', ''.jpeg'', ''.gif'', ''.bmp'', ''.tiff''}
       \<longrightarrow> uploadHandler lib True True sc r =
             \<lparr>status = 400,
              body = Raw ''{"error": "Please upload a valid image file (PNG, JPG, JPEG, GIF, BMP, TIFF)"}'',
              effects = [FileClose], waited = 0\<rparr>)\<close>
proof -
  have iff: "isValidImageType lib filename =
     (ToLower lib (Ext (goos lib) filename) \<in>
        {''.png'', ''.jpg'', ''.jpeg'', ''.gif'', ''.bmp'', ''.tiff''})"
    by (simp add: isValidImageType_def validExts_loop_set validExts_def Let_def)
  show ?thesis
    unfolding iff[symmetric] by (auto simp: uploadHandler_def)
qed

theorem unsupported_extension_rejected_witness:
  \<open>isValidImageType lib0 ''Photo.JPEG'' \<and> \<not> isValidImageType lib0 ''notes.TXT''
   \<and> uploadHandler lib0 True True sched_idle
        \<lparr>Method = ''POST'', ParseMultipartFormErr = False,
         image = FormFile ''notes.TXT'' (ReadOK ''hello'')\<rparr> =
         \<lparr>status = 400,
          body = Raw ''{"error": "Please upload a valid image file (PNG, JPG, JPEG, GIF, BMP, TIFF)"}'',
          effects = [FileClose], waited = 0\<rparr>\<close>
proof -
  let ?r = "\<lparr>Method = ''POST'', ParseMultipartFormErr = False,
         image = FormFile ''notes.TXT'' (ReadOK ''hello'')\<rparr>"
  note P = unsupported_extension_rejected[of lib0 "''Photo.JPEG''" ?r "ReadOK ''hello''" sched_idle]
  note N = unsupported_extension_rejected[of lib0 "''notes.TXT''" ?r "ReadOK ''hello''" sched_idle]
  have photo: "isValidImageType lib0 ''Photo.JPEG''"
    using P by (simp add: photo_ext)
  have bad_ext: "\<not> isValidImageType lib0 ''notes.TXT''"
    using N by (simp add: notes_ext)
  have \<open>uploadHandler lib0 True True sched_idle ?r =
         \<lparr>status = 400,
          body = Raw ''{"error": "Please upload a valid image file (PNG, JPG, JPEG, GIF, BMP, TIFF)"}'',
          effects = [FileClose], waited = 0\<rparr>\<close>
    using N by (simp add: notes_ext)
  then show ?thesis
    using photo bad_ext by blast
qed

text \<open>
  Claim C8. The temporary name is "temp_", the clock reading in nanoseconds, "_" and the
  original file name. Two jobs that carry the same file name and read the same clock
  value get the same temporary name (by \<open>tempFileName_eq_iff\<close> these are the only
  collisions). With two such jobs A and B, B's write replaces the image that A wrote,
  and B's cleanup removes the file that A's engine call is to read.
\<close>

theorem temp_name_collision:
  "tempFileName 1700000000000000000 ''scan.png'' = ''temp_1700000000000000000_scan.png''
   \<and> files (snd (writeImageFileOptimized w0 (tempFileName 1700000000000000000 ''scan.png'') ''image A''))
        ''temp_1700000000000000000_scan.png'' = Some ''image A''
   \<and> files (snd (writeImageFileOptimized
              (snd (writeImageFileOptimized w0 (tempFileName 1700000000000000000 ''scan.png'') ''image A''))
              (tempFileName 1700000000000000000 ''scan.png'') ''image B''))
        ''temp_1700000000000000000_scan.png'' = Some ''image B''
   \<and> files (world_after (processOCRRequest lib0 True 1700000000000000000
              (Returns Second ''text of B'' None) False
              (snd (writeImageFileOptimized w0 (tempFileName 1700000000000000000 ''scan.png'') ''image A''))
              ''image B'' ''scan.png''))
        ''temp_1700000000000000000_scan.png'' = None"
proof -
  let ?n = "tempFileName 1700000000000000000 ''scan.png''"
  let ?wA = "snd (writeImageFileOptimized w0 ?n ''image A'')"
  have okA: "fst (writeImageFileOptimized w0 ?n ''image A'') = None"
    by (rule w0_write_ok)
  have okB: "fst (writeImageFileOptimized ?wA ?n ''image B'') = None"
    by (simp add: wio_ok_iff wio_oracles w0_def)
  have re: "removeErr (snd (writeImageFileOptimized ?wA ?n ''image B'')) ?n = None"
    by (simp add: wio_frame w0_def)
  have a: "files ?wA ?n = Some ''image A''"
    by (rule wio_file[OF okA])
  have b: "files (snd (writeImageFileOptimized ?wA ?n ''image B'')) ?n = Some ''image B''"
    by (rule wio_file[OF okB])
  have c: "files (world_after (processOCRRequest lib0 True 1700000000000000000
              (Returns Second ''text of B'' None) False ?wA ''image B'' ''scan.png'')) ?n = None"
    by (simp add: proc_world[OF okB] cleanup_files[OF re])
  show ?thesis
    using a b c by (simp add: tempFileName_example)
qed

section \<open>Invariants of the worker pool\<close>



lemma count_update:
  "i < length xs \<Longrightarrow>
   count_list (xs[i := v]) x + (if xs ! i = x then 1 else 0) =
   count_list xs x + (if v = x then 1 else 0)"
proof (induction xs arbitrary: i)
  case Nil
  then show ?case by simp
next
  case (Cons y ys)
  show ?case
  proof (cases i)
    case 0
    then show ?thesis by simp
  next
    case (Suc j)
    with Cons.prems have "j < length ys" by simp
    from Cons.IH[OF this] show ?thesis
      by (simp add: Suc split: if_splits)
  qed
qed

lemma count_pos:
  "i < length xs \<Longrightarrow> xs ! i = x \<Longrightarrow> 0 < count_list xs x"
  by (metis count_list_0_iff neq0_conv nth_mem)

lemma count_update':
  "i < length xs \<Longrightarrow>
   count_list (xs[i := v]) x =
   count_list xs x - (if xs ! i = x then 1 else 0) + (if v = x then 1 else 0)"
proof -
  assume a: "i < length xs"
  have p: "xs ! i = x \<Longrightarrow> 1 \<le> count_list xs x"
    using count_pos[OF a, of x] by simp
  show ?thesis
    using count_update[OF a, of v x] p
    by (auto split: if_splits)
qed




text \<open>Every event keeps the lock invariant.\<close>

lemma lock_inv_step:
  assumes "lock_inv s" and "step s e = Some s'"
  shows "lock_inv s'"
proof (cases e)
  case (RLock g)
  with assms show ?thesis
    by (auto simp: lock_inv_def lock_holders_def count_update' split: if_splits)
next
  case (CallReturns g)
  with assms show ?thesis
    using count_pos[of g "goroutines s" InCall]
    by (auto simp: lock_inv_def lock_holders_def count_update' split: if_splits)
next
  case (RUnlock g)
  with assms show ?thesis
    using count_pos[of g "goroutines s" AtRUnlock]
    by (auto simp: lock_inv_def lock_holders_def count_update' split: if_splits)
next
  case (Post g r)
  with assms show ?thesis
    by (auto simp: lock_inv_def lock_holders_def count_update' split: if_splits)
next
  case (TakeResult w)
  with assms show ?thesis
    by (auto simp: lock_inv_def lock_holders_def count_update'
        split: if_splits wpc.splits gpc.splits)
qed (use assms in \<open>auto simp: lock_inv_def lock_holders_def
       split: if_splits wpc.splits list.splits option.splits\<close>)

lemma lock_inv_run:
  "lock_inv s \<Longrightarrow> run s es = Some s' \<Longrightarrow> lock_inv s'"
  by (induction es arbitrary: s) (auto split: option.splits intro: lock_inv_step)

lemma lock_inv_init: "lock_inv init"
  by (simp add: lock_inv_def init_def lock_holders_def)




section \<open>The claims about the worker pool\<close>

text \<open>
  Claim C1, as the code has it. In every state the program reaches, \<^verbatim>\<open>ocrMutex\<close> has
  no writer and its reader count is the number of goroutines between \<^verbatim>\<open>RLock\<close> and
  \<^verbatim>\<open>RUnlock\<close>: the lock is held for the extraction call only, and every engine call
  in flight holds it. The lock is taken in shared mode, so a goroutine that stands at
  \<^verbatim>\<open>RLock\<close> is never made to wait, whatever the number of engine calls in flight.
\<close>

theorem read_lock_is_shared:
  assumes "run init es = Some s"
  shows "\<not> writerHeld s \<and> readerCount s = lock_holders s \<and> in_flight s \<le> readerCount s
       \<and> (g < length (goroutines s) \<and> goroutines s ! g = AtRLock \<longrightarrow> step s (RLock g) \<noteq> None)"
  using lock_inv_run[OF lock_inv_init assms]
  by (simp add: lock_inv_def lock_holders_def in_flight_def)

theorem read_lock_is_shared_witness:
  "(case run init [Submit ''A'' ''a.png'', Submit ''B'' ''b.png'', Dequeue 0, Dequeue 1,
                   Spawn 0, Spawn 1, RLock 0] of
      None \<Rightarrow> False
    | Some s \<Rightarrow> in_flight s = 1 \<and> readerCount s = 1 \<and> goroutines s ! 1 = AtRLock
              \<and> step s (RLock 1) \<noteq> None)"
proof -
  obtain s where r: "run init [Submit ''A'' ''a.png'', Submit ''B'' ''b.png'', Dequeue 0, Dequeue 1,
                   Spawn 0, Spawn 1, RLock 0] = Some s"
    and f: "in_flight s = 1" and c: "readerCount s = 1"
    and g: "1 < length (goroutines s)" "goroutines s ! 1 = AtRLock"
    by (simp add: init_def in_flight_def)
  from read_lock_is_shared[OF r, of 1] g have "step s (RLock 1) \<noteq> None"
    by blast
  with r f c g show ?thesis by simp
qed

text \<open>
  Claim C1, as stated, fails: two workers take one request each, both goroutines pass
  \<^verbatim>\<open>RLock\<close>, and two engine calls are in flight at the same instant.
\<close>

theorem engine_calls_overlap:
  "map_option in_flight
     (run init [Submit ''A'' ''a.png'', Submit ''B'' ''b.png'', Dequeue 0, Dequeue 1,
                Spawn 0, Spawn 1, RLock 0, RLock 1]) = Some 2"
  by (simp add: init_def in_flight_def)




end
